theory Spec2Isabelle
  imports Main "HOL-Library.Word"
begin

unbundle bit_operations_syntax

section \<open>The socket core of the scalable-messaging library (src/core/sock.c)\<close>

text \<open>
  The file sock.c is a thin layer of control flow around three collaborators that are
  not part of the sources at hand: the event dispatcher (\<open>sp_aio_*\<close>), the wait monitor
  (\<open>sp_cond_*\<close>) and the pattern behaviour (the table \<open>sp_sockbase_vfptr\<close> of function
  pointers). The embedding keeps every function of sock.c as one HOL function over an
  explicit state. The state has two parts: the memory the pattern hooks read and write
  (of an arbitrary type \<open>'w\<close>), and the log of the calls that the functions of sock.c make
  to their collaborators, oldest first; what a hook does in its turn is its effect on the
  memory and is not logged. What the specification says about order, locking and
  forwarding is then a property of that log and of the returned value.
\<close>

subsection \<open>Values\<close>

text \<open>A C \<open>int\<close> is a 32-bit word, read as two's complement by \<open>sint\<close> and compared as
  a signed value by \<open>\<le>s\<close>; pointers are opaque addresses; \<open>size_t\<close> values are only passed
  through.\<close>

type_synonym cint = "32 word"
type_synonym addr = int
type_synonym size_t = nat

text \<open>
  The constants that sock.c takes from headers that are not among the sources
  (\<open>EAGAIN\<close> and \<open>ENOPROTOOPT\<close> from the platform's errno.h, \<open>SP_SOL_SOCKET\<close> and
  \<open>SP_DONTWAIT\<close> from sp.h) and the layout of \<open>struct sp_pipebase\<close> (transport.h) are
  parameters of the model.
\<close>

record platform =
  EAGAIN :: cint
  ENOPROTOOPT :: cint
  SP_SOL_SOCKET :: cint
  SP_DONTWAIT :: cint
  inevent_off :: int \<comment> \<open>\<open>offsetof (struct sp_pipebase, inevent)\<close>\<close>
  outevent_off :: int \<comment> \<open>\<open>offsetof (struct sp_pipebase, outevent)\<close>\<close>

definition SP_SOCK_EVENT_IN :: cint where
  "SP_SOCK_EVENT_IN = 1"

definition SP_SOCK_EVENT_OUT :: cint where
  "SP_SOCK_EVENT_OUT = 2"

subsection \<open>The log of calls to the collaborators\<close>

datatype event =
    Aio_init
  | Aio_term
  | Aio_lock
  | Aio_unlock
  | Aio_post cint addr
  | Aio_add_timer cint addr
  | Aio_rm_timer addr
  | Cond_init
  | Cond_term
  | Cond_wait cint
  | Cond_post
  | Vf_term
  | Vf_setopt cint addr size_t
  | Vf_getopt cint addr addr
  | Vf_send addr size_t
  | Vf_recv addr addr
  | Vf_add addr
  | Vf_rm addr
  | Vf_in addr
  | Vf_out addr
  | Vf_timeout addr

record 'w state =
  world :: 'w
  trace :: "event list"

definition init_state :: "'w \<Rightarrow> 'w state" where
  "init_state w = \<lparr>world = w, trace = []\<rparr>"

definition emit :: "event \<Rightarrow> 'w state \<Rightarrow> 'w state" where
  "emit e s = s\<lparr>trace := trace s @ [e]\<rparr>"

text \<open>A call through a function pointer: the callee runs on the memory and the call is logged.\<close>

definition call :: "event \<Rightarrow> ('w \<Rightarrow> 'r \<times> 'w) \<Rightarrow> 'w state \<Rightarrow> 'r \<times> 'w state" where
  "call e h s = (case h (world s) of (r, w') \<Rightarrow> (r, \<lparr>world = w', trace = trace s @ [e]\<rparr>))"

definition call_void :: "event \<Rightarrow> ('w \<Rightarrow> 'w) \<Rightarrow> 'w state \<Rightarrow> 'w state" where
  "call_void e h s = \<lparr>world = h (world s), trace = trace s @ [e]\<rparr>"

text \<open>
  How an activation of a function of sock.c ends: it returns a value, the process is
  aborted by a failed assertion, or the thread stays parked in the wait monitor.
\<close>

datatype 'a outcome = Returned 'a | Aborted | Blocked

subsection \<open>The pattern behaviour\<close>

text \<open>
  \<open>struct sp_sockbase_vfptr\<close>: the members that sock.c calls, with the arguments it
  passes besides the socket itself. The members carry the prefix \<open>v_\<close> because \<open>term\<close>
  and \<open>in\<close> are reserved words.
\<close>

record 'w sp_sockbase_vfptr =
  v_term :: "'w \<Rightarrow> 'w"
  v_setopt :: "cint \<Rightarrow> addr \<Rightarrow> size_t \<Rightarrow> 'w \<Rightarrow> cint \<times> 'w"
  v_getopt :: "cint \<Rightarrow> addr \<Rightarrow> addr \<Rightarrow> 'w \<Rightarrow> cint \<times> 'w"
  v_send :: "addr \<Rightarrow> size_t \<Rightarrow> 'w \<Rightarrow> cint \<times> 'w"
  v_recv :: "addr \<Rightarrow> addr \<Rightarrow> 'w \<Rightarrow> cint \<times> 'w"
  v_add :: "addr \<Rightarrow> 'w \<Rightarrow> cint \<times> 'w"
  v_rm :: "addr \<Rightarrow> 'w \<Rightarrow> 'w"
  v_in :: "addr \<Rightarrow> 'w \<Rightarrow> cint \<times> 'w"
  v_out :: "addr \<Rightarrow> 'w \<Rightarrow> cint \<times> 'w"
  v_timeout :: "addr \<Rightarrow> 'w \<Rightarrow> 'w"

text \<open>
  \<open>struct sp_sockbase\<close>. Its members \<open>aio\<close> and \<open>cond\<close> are objects of the dispatcher
  and of the monitor; sock.c only passes their addresses on, and what is done to them is
  what the log records.
\<close>

record 'w sp_sockbase =
  vfptr :: "'w sp_sockbase_vfptr"
  fd :: cint

subsection \<open>The collaborators\<close>

text \<open>Modelled from the spec: the dispatcher binding (utils/aio is not among the sources).
  The spec gives its interface as \<open>init(callback_table)\<close>, \<open>term()\<close>, \<open>lock()\<close>/\<open>unlock()\<close>,
  \<open>post(tag, event_identity)\<close>, \<open>add_timer(duration, handle)\<close>, \<open>remove_timer(handle)\<close>;
  each call is recorded with its arguments.\<close>

definition sp_aio_init :: "'w state \<Rightarrow> 'w state" where
  "sp_aio_init = emit Aio_init"

definition sp_aio_term :: "'w state \<Rightarrow> 'w state" where
  "sp_aio_term = emit Aio_term"

definition sp_aio_lock :: "'w state \<Rightarrow> 'w state" where
  "sp_aio_lock = emit Aio_lock"

definition sp_aio_unlock :: "'w state \<Rightarrow> 'w state" where
  "sp_aio_unlock = emit Aio_unlock"

definition sp_aio_post :: "cint \<Rightarrow> addr \<Rightarrow> 'w state \<Rightarrow> 'w state" where
  "sp_aio_post event hndl = emit (Aio_post event hndl)"

definition sp_aio_add_timer :: "cint \<Rightarrow> addr \<Rightarrow> 'w state \<Rightarrow> 'w state" where
  "sp_aio_add_timer timeout hndl = emit (Aio_add_timer timeout hndl)"

definition sp_aio_rm_timer :: "addr \<Rightarrow> 'w state \<Rightarrow> 'w state" where
  "sp_aio_rm_timer hndl = emit (Aio_rm_timer hndl)"

text \<open>Modelled from the spec: the wait monitor (utils/cond is not among the sources).
  \<open>wait(monitor, mutex, timeout_or_infinite) \<rightarrow> Result\<close> blocks until posted, releasing
  the critical section for the duration of the wait and reacquiring it upon wake;
  \<open>post(monitor)\<close> wakes waiters. A wake-up \<open>k\<close> says what the other threads and the
  dispatcher did to the memory while the thread was waiting, and which result the wait
  returns. The thread gets the wake-ups \<open>wakes\<close> that its environment delivers, in order;
  a wait with none left never returns.\<close>

type_synonym 'w wake = "'w \<Rightarrow> cint \<times> 'w"

definition sp_cond_init :: "'w state \<Rightarrow> 'w state" where
  "sp_cond_init = emit Cond_init"

definition sp_cond_term :: "'w state \<Rightarrow> 'w state" where
  "sp_cond_term = emit Cond_term"

definition sp_cond_post :: "'w state \<Rightarrow> 'w state" where
  "sp_cond_post = emit Cond_post"

definition sp_cond_wait ::
  "cint \<Rightarrow> 'w wake list \<Rightarrow> 'w state \<Rightarrow> (cint \<times> 'w wake list) outcome \<times> 'w state" where
  "sp_cond_wait timeout wakes s =
     (case wakes of
        [] \<Rightarrow> (Blocked, emit (Cond_wait timeout) s)
      | k # ks \<Rightarrow> (case call (Cond_wait timeout) k s of (rc, s) \<Rightarrow> (Returned (rc, ks), s)))"

text \<open>Modelled from the spec: the assertion macros of utils/err.h (not among the sources).
  The spec makes a violation of the internal contract fatal: it aborts and is not recovered.
  \<open>sp_assert (x)\<close> and \<open>errnum_assert (x, err)\<close> abort the process when \<open>x\<close> is false and
  go on with the rest of the function otherwise; \<open>err\<close> is only reported.\<close>

definition sp_assert :: "bool \<Rightarrow> 'w state \<Rightarrow> 'a outcome \<times> 'w state \<Rightarrow> 'a outcome \<times> 'w state" where
  "sp_assert x s rest = (if x then rest else (Aborted, s))"

definition errnum_assert ::
  "bool \<Rightarrow> cint \<Rightarrow> 'w state \<Rightarrow> 'a outcome \<times> 'w state \<Rightarrow> 'a outcome \<times> 'w state" where
  "errnum_assert x err s rest = (if x then rest else (Aborted, s))"

text \<open>Modelled from the spec: the back-reference macro of utils/cont.h (not among the
  sources), which recovers the address of an outer struct from the address of a member
  embedded at a given offset.\<close>

definition sp_cont :: "addr \<Rightarrow> int \<Rightarrow> addr" where
  "sp_cont ptr off = ptr - off"

subsection \<open>Construction and termination\<close>

text \<open>\<open>sp_sockbase_init\<close> (sock.c, lines 47 to 54).\<close>

definition sp_sockbase_init ::
  "'w sp_sockbase_vfptr \<Rightarrow> cint \<Rightarrow> 'w state \<Rightarrow> 'w sp_sockbase \<times> 'w state" where
  "sp_sockbase_init vfptr' fd' s =
     (let s = sp_aio_init s;
          s = sp_cond_init s
      in (\<lparr>vfptr = vfptr', fd = fd'\<rparr>, s))"

text \<open>\<open>sp_sock_term\<close> (lines 56 to 68).\<close>

definition sp_sock_term :: "'w sp_sockbase \<Rightarrow> 'w state \<Rightarrow> 'w state" where
  "sp_sock_term sockbase s =
     (let s = call_void Vf_term (v_term (vfptr sockbase)) s;
          s = sp_cond_term s;
          s = sp_aio_term s
      in s)"

subsection \<open>Socket options\<close>

text \<open>\<open>sp_sock_setopt\<close> (lines 70 to 96).\<close>

definition sp_sock_setopt ::
  "platform \<Rightarrow> 'w sp_sockbase \<Rightarrow> cint \<Rightarrow> cint \<Rightarrow> addr \<Rightarrow> size_t \<Rightarrow> 'w state
     \<Rightarrow> cint outcome \<times> 'w state" where
  "sp_sock_setopt c sockbase level option optval optvallen s =
     (let s = sp_aio_lock s in
      if level = SP_SOL_SOCKET c then
        (case call (Vf_setopt option optval optvallen)
                (v_setopt (vfptr sockbase) option optval optvallen) s of
           (rc, s) \<Rightarrow>
             if rc \<noteq> - ENOPROTOOPT c then (Returned rc, sp_aio_unlock s)
             else (Returned (- ENOPROTOOPT c), sp_aio_unlock s))
      else (Returned (- ENOPROTOOPT c), sp_aio_unlock s))"

text \<open>\<open>sp_sock_getopt\<close> (lines 98 to 124).\<close>

definition sp_sock_getopt ::
  "platform \<Rightarrow> 'w sp_sockbase \<Rightarrow> cint \<Rightarrow> cint \<Rightarrow> addr \<Rightarrow> addr \<Rightarrow> 'w state
     \<Rightarrow> cint outcome \<times> 'w state" where
  "sp_sock_getopt c sockbase level option optval optvallen s =
     (let s = sp_aio_lock s in
      if level = SP_SOL_SOCKET c then
        (case call (Vf_getopt option optval optvallen)
                (v_getopt (vfptr sockbase) option optval optvallen) s of
           (rc, s) \<Rightarrow>
             if rc \<noteq> - ENOPROTOOPT c then (Returned rc, sp_aio_unlock s)
             else (Returned (- ENOPROTOOPT c), sp_aio_unlock s))
      else (Returned (- ENOPROTOOPT c), sp_aio_unlock s))"

subsection \<open>Sending and receiving\<close>

text \<open>
  \<open>sp_sock_send\<close> (lines 126 to 162). The body of \<open>while (1)\<close> is \<open>sp_sock_send_loop\<close>,
  which runs again after every wait that returns 0; \<open>wakes\<close> are the wake-ups that the
  environment delivers to this thread. \<open>sp_fast\<close> and \<open>sp_slow\<close> are branch-prediction
  hints and do not change the value of the condition.
\<close>

function sp_sock_send_loop ::
  "platform \<Rightarrow> 'w sp_sockbase \<Rightarrow> addr \<Rightarrow> size_t \<Rightarrow> cint \<Rightarrow> 'w wake list \<Rightarrow> 'w state
     \<Rightarrow> cint outcome \<times> 'w state" where
  "sp_sock_send_loop c sockbase buf len flags wakes s =
     (case call (Vf_send buf len) (v_send (vfptr sockbase) buf len) s of
        (rc, s) \<Rightarrow>
          if rc = 0 then (Returned 0, sp_aio_unlock s)
          else if rc \<noteq> - EAGAIN c then (Returned rc, sp_aio_unlock s)
          else if flags AND SP_DONTWAIT c \<noteq> 0 then (Returned (- EAGAIN c), sp_aio_unlock s)
          else
            (case sp_cond_wait (- 1) wakes s of
               (Returned (rc, wakes), s) \<Rightarrow>
                 errnum_assert (rc = 0) rc s
                   (sp_sock_send_loop c sockbase buf len flags wakes s)
             | (Aborted, s) \<Rightarrow> (Aborted, s)
             | (Blocked, s) \<Rightarrow> (Blocked, s)))"
  by pat_completeness auto
termination
  by (relation "measure (\<lambda>(c, sockbase, buf, len, flags, wakes, s). length wakes)")
     (auto simp: sp_cond_wait_def split: list.splits prod.splits)

definition sp_sock_send ::
  "platform \<Rightarrow> 'w sp_sockbase \<Rightarrow> addr \<Rightarrow> size_t \<Rightarrow> cint \<Rightarrow> 'w wake list \<Rightarrow> 'w state
     \<Rightarrow> cint outcome \<times> 'w state" where
  "sp_sock_send c sockbase buf len flags wakes s =
     sp_sock_send_loop c sockbase buf len flags wakes (sp_aio_lock s)"

text \<open>\<open>sp_sock_recv\<close> (lines 164 to 200), in the same way.\<close>

function sp_sock_recv_loop ::
  "platform \<Rightarrow> 'w sp_sockbase \<Rightarrow> addr \<Rightarrow> addr \<Rightarrow> cint \<Rightarrow> 'w wake list \<Rightarrow> 'w state
     \<Rightarrow> cint outcome \<times> 'w state" where
  "sp_sock_recv_loop c sockbase buf len flags wakes s =
     (case call (Vf_recv buf len) (v_recv (vfptr sockbase) buf len) s of
        (rc, s) \<Rightarrow>
          if rc = 0 then (Returned 0, sp_aio_unlock s)
          else if rc \<noteq> - EAGAIN c then (Returned rc, sp_aio_unlock s)
          else if flags AND SP_DONTWAIT c \<noteq> 0 then (Returned (- EAGAIN c), sp_aio_unlock s)
          else
            (case sp_cond_wait (- 1) wakes s of
               (Returned (rc, wakes), s) \<Rightarrow>
                 errnum_assert (rc = 0) rc s
                   (sp_sock_recv_loop c sockbase buf len flags wakes s)
             | (Aborted, s) \<Rightarrow> (Aborted, s)
             | (Blocked, s) \<Rightarrow> (Blocked, s)))"
  by pat_completeness auto
termination
  by (relation "measure (\<lambda>(c, sockbase, buf, len, flags, wakes, s). length wakes)")
     (auto simp: sp_cond_wait_def split: list.splits prod.splits)

definition sp_sock_recv ::
  "platform \<Rightarrow> 'w sp_sockbase \<Rightarrow> addr \<Rightarrow> addr \<Rightarrow> cint \<Rightarrow> 'w wake list \<Rightarrow> 'w state
     \<Rightarrow> cint outcome \<times> 'w state" where
  "sp_sock_recv c sockbase buf len flags wakes s =
     sp_sock_recv_loop c sockbase buf len flags wakes (sp_aio_lock s)"

subsection \<open>Identity and pipes\<close>

text \<open>\<open>sp_sock_fd\<close> (lines 202 to 208).\<close>

definition sp_sock_fd :: "'w sp_sockbase \<Rightarrow> cint" where
  "sp_sock_fd sockbase = fd sockbase"



text \<open>\<open>sp_sock_in\<close> (lines 228 to 232) and \<open>sp_sock_out\<close> (lines 234 to 238); the second
  argument of the post is the address of the member \<open>inevent\<close> or \<open>outevent\<close> of the pipe.\<close>

definition sp_sock_in :: "platform \<Rightarrow> addr \<Rightarrow> 'w state \<Rightarrow> 'w state" where
  "sp_sock_in c pipe s = sp_aio_post SP_SOCK_EVENT_IN (pipe + inevent_off c) s"

definition sp_sock_out :: "platform \<Rightarrow> addr \<Rightarrow> 'w state \<Rightarrow> 'w state" where
  "sp_sock_out c pipe s = sp_aio_post SP_SOCK_EVENT_OUT (pipe + outevent_off c) s"

subsection \<open>The callbacks of the dispatcher\<close>

text \<open>
  The callbacks receive the address of the member \<open>aio\<close> and recover the socket that
  contains it with \<open>sp_cont\<close>; the model hands them that socket.
\<close>

text \<open>\<open>sp_sock_io\<close> (lines 240 to 244).\<close>

definition sp_sock_io :: "'w sp_sockbase \<Rightarrow> cint \<Rightarrow> addr \<Rightarrow> 'w state \<Rightarrow> unit outcome \<times> 'w state" where
  "sp_sock_io sockbase event hndl s = sp_assert False s (Returned (), s)"

text \<open>\<open>sp_sock_event\<close> (lines 246 to 273).\<close>

definition sp_sock_event ::
  "platform \<Rightarrow> 'w sp_sockbase \<Rightarrow> cint \<Rightarrow> addr \<Rightarrow> 'w state \<Rightarrow> unit outcome \<times> 'w state" where
  "sp_sock_event c sockbase event hndl s =
     (if event = SP_SOCK_EVENT_IN then
        (let pipebase = sp_cont hndl (inevent_off c) in
         case call (Vf_in pipebase) (v_in (vfptr sockbase) pipebase) s of
           (rc, s) \<Rightarrow>
             errnum_assert (0 \<le>s rc) (- rc) s
               (if rc = 1 then (Returned (), sp_cond_post s) else (Returned (), s)))
      else if event = SP_SOCK_EVENT_OUT then
        (let pipebase = sp_cont hndl (outevent_off c) in
         case call (Vf_out pipebase) (v_out (vfptr sockbase) pipebase) s of
           (rc, s) \<Rightarrow>
             errnum_assert (0 \<le>s rc) (- rc) s
               (if rc = 1 then (Returned (), sp_cond_post s) else (Returned (), s)))
      else sp_assert False s (Returned (), s))"


text \<open>\<open>sp_sockbase_add_timer\<close> and \<open>sp_sockbase_rm_timer\<close> (lines 284 to 294).\<close>

definition sp_sockbase_add_timer :: "cint \<Rightarrow> addr \<Rightarrow> 'w state \<Rightarrow> 'w state" where
  "sp_sockbase_add_timer timeout hndl s = sp_aio_add_timer timeout hndl s"

definition sp_sockbase_rm_timer :: "addr \<Rightarrow> 'w state \<Rightarrow> 'w state" where
  "sp_sockbase_rm_timer hndl s = sp_aio_rm_timer hndl s"

section \<open>Properties of logs\<close>

text \<open>The entries of the log that are calls of a hook of the pattern.\<close>

fun is_hook :: "event \<Rightarrow> bool" where
  "is_hook Vf_term = True"
| "is_hook (Vf_setopt option optval optvallen) = True"
| "is_hook (Vf_getopt option optval optvallen) = True"
| "is_hook (Vf_send buf len) = True"
| "is_hook (Vf_recv buf len) = True"
| "is_hook (Vf_add pipe) = True"
| "is_hook (Vf_rm pipe) = True"
| "is_hook (Vf_in pipe) = True"
| "is_hook (Vf_out pipe) = True"
| "is_hook (Vf_timeout hndl) = True"
| "is_hook e = False"



text \<open>The log of a call that locks once, first, and unlocks once, last.\<close>

definition balanced_log :: "event list \<Rightarrow> bool" where
  "balanced_log es =
     (take 1 es = [Aio_lock] \<and> last es = Aio_unlock
      \<and> count_list es Aio_lock = 1 \<and> count_list es Aio_unlock = 1)"


text \<open>
  The shape of the log of the retry loop with hook call \<open>h\<close>: a call of the hook, then
  either the unlock, which ends the log, or a wait with timeout \<open>-1\<close>, after which the log
  ends (the thread is parked, or the wait failed) or the shape repeats.
\<close>

fun retry_trace :: "event \<Rightarrow> event list \<Rightarrow> bool" where
  "retry_trace h (e1 # e2 # es) =
     (e1 = h \<and>
      (if es = [] then e2 = Aio_unlock \<or> e2 = Cond_wait (- 1)
       else e2 = Cond_wait (- 1) \<and> retry_trace h es))"
| "retry_trace h es = False"

section \<open>A sample platform and a sample pattern\<close>

text \<open>
  Concrete values on which the model is run: the errno values of Linux and small values for
  the constants of sp.h and the offsets, and a pattern whose memory is the list of the
  results that its hooks will return, one per call (0 when the list is used up).
\<close>

definition sample_platform :: platform where
  "sample_platform =
     \<lparr>EAGAIN = 11, ENOPROTOOPT = 92, SP_SOL_SOCKET = 1, SP_DONTWAIT = 1,
      inevent_off = 8, outevent_off = 16\<rparr>"

definition pop :: "cint list \<Rightarrow> cint \<times> cint list" where
  "pop w = (case w of [] \<Rightarrow> (0, []) | r # rs \<Rightarrow> (r, rs))"

definition script_vfptr :: "cint list sp_sockbase_vfptr" where
  "script_vfptr =
     \<lparr>v_term = (\<lambda>w. []),
      v_setopt = (\<lambda>option optval optvallen. pop),
      v_getopt = (\<lambda>option optval optvallen. pop),
      v_send = (\<lambda>buf len. pop),
      v_recv = (\<lambda>buf len. pop),
      v_add = (\<lambda>pipe. pop),
      v_rm = (\<lambda>pipe w. w),
      v_in = (\<lambda>pipe. pop),
      v_out = (\<lambda>pipe. pop),
      v_timeout = (\<lambda>hndl w. w)\<rparr>"

definition script_sock :: "cint list sp_sockbase" where
  "script_sock = \<lparr>vfptr = script_vfptr, fd = 3\<rparr>"

section \<open>Basic facts\<close>

lemma world_emit [simp]: "world (emit e s) = world s"
  by (simp add: emit_def)

lemma trace_emit [simp]: "trace (emit e s) = trace s @ [e]"
  by (simp add: emit_def)

lemma call_eq: "call e h s = (fst (h (world s)), \<lparr>world = snd (h (world s)), trace = trace s @ [e]\<rparr>)"
  by (simp add: call_def split: prod.split)

lemmas aio_cond_defs = sp_aio_init_def sp_aio_term_def sp_aio_lock_def sp_aio_unlock_def
  sp_aio_post_def sp_aio_add_timer_def sp_aio_rm_timer_def sp_cond_init_def sp_cond_term_def
  sp_cond_post_def

lemmas assert_defs = sp_assert_def errnum_assert_def

declare sp_sock_send_loop.simps [simp del] sp_sock_recv_loop.simps [simp del]


lemma send_loop_step:
  "sp_sock_send_loop c sockbase buf len flags wakes s =
     (let rc = fst (v_send (vfptr sockbase) buf len (world s));
          s1 = \<lparr>world = snd (v_send (vfptr sockbase) buf len (world s)),
                trace = trace s @ [Vf_send buf len]\<rparr>
      in if rc = 0 then (Returned 0, emit Aio_unlock s1)
         else if rc \<noteq> - EAGAIN c then (Returned rc, emit Aio_unlock s1)
         else if flags AND SP_DONTWAIT c \<noteq> 0 then (Returned (- EAGAIN c), emit Aio_unlock s1)
         else (case wakes of
                 [] \<Rightarrow> (Blocked, emit (Cond_wait (- 1)) s1)
               | k # ks \<Rightarrow>
                   if fst (k (world s1)) = 0
                   then sp_sock_send_loop c sockbase buf len flags ks
                          \<lparr>world = snd (k (world s1)), trace = trace s1 @ [Cond_wait (- 1)]\<rparr>
                   else (Aborted, \<lparr>world = snd (k (world s1)), trace = trace s1 @ [Cond_wait (- 1)]\<rparr>)))"
  by (subst sp_sock_send_loop.simps)
     (simp add: call_eq sp_cond_wait_def errnum_assert_def sp_aio_unlock_def Let_def
        split: list.split)

lemma recv_loop_step:
  "sp_sock_recv_loop c sockbase buf len flags wakes s =
     (let rc = fst (v_recv (vfptr sockbase) buf len (world s));
          s1 = \<lparr>world = snd (v_recv (vfptr sockbase) buf len (world s)),
                trace = trace s @ [Vf_recv buf len]\<rparr>
      in if rc = 0 then (Returned 0, emit Aio_unlock s1)
         else if rc \<noteq> - EAGAIN c then (Returned rc, emit Aio_unlock s1)
         else if flags AND SP_DONTWAIT c \<noteq> 0 then (Returned (- EAGAIN c), emit Aio_unlock s1)
         else (case wakes of
                 [] \<Rightarrow> (Blocked, emit (Cond_wait (- 1)) s1)
               | k # ks \<Rightarrow>
                   if fst (k (world s1)) = 0
                   then sp_sock_recv_loop c sockbase buf len flags ks
                          \<lparr>world = snd (k (world s1)), trace = trace s1 @ [Cond_wait (- 1)]\<rparr>
                   else (Aborted, \<lparr>world = snd (k (world s1)), trace = trace s1 @ [Cond_wait (- 1)]\<rparr>)))"
  by (subst sp_sock_recv_loop.simps)
     (simp add: call_eq sp_cond_wait_def errnum_assert_def sp_aio_unlock_def Let_def
        split: list.split)

lemma retry_trace_again:
  "retry_trace h es \<Longrightarrow> retry_trace h (h # Cond_wait (- 1) # es)"
  by (cases es) auto

subsection \<open>The send loop\<close>

lemma send_loop_return:
  "fst (v_send (vfptr sockbase) buf len (world s)) = 0
     \<or> fst (v_send (vfptr sockbase) buf len (world s)) \<noteq> - EAGAIN c
     \<or> flags AND SP_DONTWAIT c \<noteq> 0 \<Longrightarrow>
   sp_sock_send_loop c sockbase buf len flags wakes s =
     (Returned (fst (v_send (vfptr sockbase) buf len (world s))),
      \<lparr>world = snd (v_send (vfptr sockbase) buf len (world s)),
       trace = trace s @ [Vf_send buf len, Aio_unlock]\<rparr>)"
  by (subst send_loop_step) (auto simp: Let_def emit_def)

lemma send_loop_block:
  "fst (v_send (vfptr sockbase) buf len (world s)) \<noteq> 0 \<Longrightarrow>
   fst (v_send (vfptr sockbase) buf len (world s)) = - EAGAIN c \<Longrightarrow>
   flags AND SP_DONTWAIT c = 0 \<Longrightarrow>
   sp_sock_send_loop c sockbase buf len flags [] s =
     (Blocked,
      \<lparr>world = snd (v_send (vfptr sockbase) buf len (world s)),
       trace = trace s @ [Vf_send buf len, Cond_wait (- 1)]\<rparr>)"
  by (subst send_loop_step) (simp add: Let_def emit_def)

lemma send_loop_wake:
  "fst (v_send (vfptr sockbase) buf len (world s)) \<noteq> 0 \<Longrightarrow>
   fst (v_send (vfptr sockbase) buf len (world s)) = - EAGAIN c \<Longrightarrow>
   flags AND SP_DONTWAIT c = 0 \<Longrightarrow>
   fst (k (snd (v_send (vfptr sockbase) buf len (world s)))) = 0 \<Longrightarrow>
   sp_sock_send_loop c sockbase buf len flags (k # ks) s =
     sp_sock_send_loop c sockbase buf len flags ks
       \<lparr>world = snd (k (snd (v_send (vfptr sockbase) buf len (world s)))),
        trace = trace s @ [Vf_send buf len, Cond_wait (- 1)]\<rparr>"
  by (subst send_loop_step) (simp add: Let_def)

lemma send_loop_abort:
  "fst (v_send (vfptr sockbase) buf len (world s)) \<noteq> 0 \<Longrightarrow>
   fst (v_send (vfptr sockbase) buf len (world s)) = - EAGAIN c \<Longrightarrow>
   flags AND SP_DONTWAIT c = 0 \<Longrightarrow>
   fst (k (snd (v_send (vfptr sockbase) buf len (world s)))) \<noteq> 0 \<Longrightarrow>
   sp_sock_send_loop c sockbase buf len flags (k # ks) s =
     (Aborted,
      \<lparr>world = snd (k (snd (v_send (vfptr sockbase) buf len (world s)))),
       trace = trace s @ [Vf_send buf len, Cond_wait (- 1)]\<rparr>)"
  by (subst send_loop_step) (simp add: Let_def)

text \<open>One induction over the wake-ups for all properties of the loop.\<close>

lemma send_loop_induct [case_names return block abort wake]:
  assumes "\<And>wakes s.
            fst (v_send (vfptr sockbase) buf len (world s)) = 0
              \<or> fst (v_send (vfptr sockbase) buf len (world s)) \<noteq> - EAGAIN c
              \<or> flags AND SP_DONTWAIT c \<noteq> 0 \<Longrightarrow>
            P wakes s
             (Returned (fst (v_send (vfptr sockbase) buf len (world s))),
              \<lparr>world = snd (v_send (vfptr sockbase) buf len (world s)),
               trace = trace s @ [Vf_send buf len, Aio_unlock]\<rparr>)"
    and "\<And>s. flags AND SP_DONTWAIT c = 0 \<Longrightarrow> P [] s
             (Blocked,
              \<lparr>world = snd (v_send (vfptr sockbase) buf len (world s)),
               trace = trace s @ [Vf_send buf len, Cond_wait (- 1)]\<rparr>)"
    and "\<And>k ks s. flags AND SP_DONTWAIT c = 0 \<Longrightarrow> P (k # ks) s
             (Aborted,
              \<lparr>world = snd (k (snd (v_send (vfptr sockbase) buf len (world s)))),
               trace = trace s @ [Vf_send buf len, Cond_wait (- 1)]\<rparr>)"
    and "\<And>k ks s r.
            P ks \<lparr>world = snd (k (snd (v_send (vfptr sockbase) buf len (world s)))),
                  trace = trace s @ [Vf_send buf len, Cond_wait (- 1)]\<rparr> r \<Longrightarrow>
            P (k # ks) s r"
  shows "P wakes s (sp_sock_send_loop c sockbase buf len flags wakes s)"
proof (induction wakes arbitrary: s)
  case Nil
  show ?case
  proof (cases "fst (v_send (vfptr sockbase) buf len (world s)) = 0
     \<or> fst (v_send (vfptr sockbase) buf len (world s)) \<noteq> - EAGAIN c
     \<or> flags AND SP_DONTWAIT c \<noteq> 0")
    case True
    then show ?thesis by (simp only: send_loop_return assms(1))
  next
    case False
    then show ?thesis by (simp add: send_loop_block assms(2))
  qed
next
  case (Cons k ks)
  show ?case
  proof (cases "fst (v_send (vfptr sockbase) buf len (world s)) = 0
     \<or> fst (v_send (vfptr sockbase) buf len (world s)) \<noteq> - EAGAIN c
     \<or> flags AND SP_DONTWAIT c \<noteq> 0")
    case True
    then show ?thesis by (simp only: send_loop_return assms(1))
  next
    case False
    show ?thesis
    proof (cases "fst (k (snd (v_send (vfptr sockbase) buf len (world s)))) = 0")
      case True
      with False show ?thesis by (simp add: send_loop_wake assms(4) Cons.IH)
    next
      case nz: False
      with False show ?thesis by (simp add: send_loop_abort assms(3))
    qed
  qed
qed



lemma send_loop_shape:
  "\<exists>es. trace (snd (sp_sock_send_loop c sockbase buf len flags wakes s)) = trace s @ es
      \<and> retry_trace (Vf_send buf len) es"
proof (rule send_loop_induct [where P = "\<lambda>wakes s r.
        \<exists>es. trace (snd r) = trace s @ es \<and> retry_trace (Vf_send buf len) es"])
  fix k :: "'a wake" and ks :: "'a wake list" and s :: "'a state"
    and r :: "cint outcome \<times> 'a state"
  assume "\<exists>es. trace (snd r) =
            trace \<lparr>world = snd (k (snd (v_send (vfptr sockbase) buf len (world s)))),
                   trace = trace s @ [Vf_send buf len, Cond_wait (- 1)]\<rparr> @ es
          \<and> retry_trace (Vf_send buf len) es"
  then obtain es where "trace (snd r) = trace s @ (Vf_send buf len # Cond_wait (- 1) # es)"
    and "retry_trace (Vf_send buf len) es"
    by auto
  then show "\<exists>es. trace (snd r) = trace s @ es \<and> retry_trace (Vf_send buf len) es"
    using retry_trace_again by blast
qed simp_all

lemma send_loop_balance:
  "count_list (trace (snd (sp_sock_send_loop c sockbase buf len flags wakes s))) Aio_lock
     = count_list (trace s) Aio_lock
   \<and> count_list (trace (snd (sp_sock_send_loop c sockbase buf len flags wakes s))) Aio_unlock
     = count_list (trace s) Aio_unlock
       + (case fst (sp_sock_send_loop c sockbase buf len flags wakes s) of
            Returned rc \<Rightarrow> 1 | _ \<Rightarrow> 0)
   \<and> (case fst (sp_sock_send_loop c sockbase buf len flags wakes s) of
        Returned rc \<Rightarrow>
          last (trace (snd (sp_sock_send_loop c sockbase buf len flags wakes s))) = Aio_unlock
      | _ \<Rightarrow> True)"
  by (rule send_loop_induct [where P = "\<lambda>wakes s r.
        count_list (trace (snd r)) Aio_lock = count_list (trace s) Aio_lock
      \<and> count_list (trace (snd r)) Aio_unlock
          = count_list (trace s) Aio_unlock + (case fst r of Returned rc \<Rightarrow> 1 | _ \<Rightarrow> 0)
      \<and> (case fst r of Returned rc \<Rightarrow> last (trace (snd r)) = Aio_unlock | _ \<Rightarrow> True)"])
     simp_all

subsection \<open>The receive loop\<close>

lemma recv_loop_return:
  "fst (v_recv (vfptr sockbase) buf len (world s)) = 0
     \<or> fst (v_recv (vfptr sockbase) buf len (world s)) \<noteq> - EAGAIN c
     \<or> flags AND SP_DONTWAIT c \<noteq> 0 \<Longrightarrow>
   sp_sock_recv_loop c sockbase buf len flags wakes s =
     (Returned (fst (v_recv (vfptr sockbase) buf len (world s))),
      \<lparr>world = snd (v_recv (vfptr sockbase) buf len (world s)),
       trace = trace s @ [Vf_recv buf len, Aio_unlock]\<rparr>)"
  by (subst recv_loop_step) (auto simp: Let_def emit_def)

lemma recv_loop_block:
  "fst (v_recv (vfptr sockbase) buf len (world s)) \<noteq> 0 \<Longrightarrow>
   fst (v_recv (vfptr sockbase) buf len (world s)) = - EAGAIN c \<Longrightarrow>
   flags AND SP_DONTWAIT c = 0 \<Longrightarrow>
   sp_sock_recv_loop c sockbase buf len flags [] s =
     (Blocked,
      \<lparr>world = snd (v_recv (vfptr sockbase) buf len (world s)),
       trace = trace s @ [Vf_recv buf len, Cond_wait (- 1)]\<rparr>)"
  by (subst recv_loop_step) (simp add: Let_def emit_def)

lemma recv_loop_wake:
  "fst (v_recv (vfptr sockbase) buf len (world s)) \<noteq> 0 \<Longrightarrow>
   fst (v_recv (vfptr sockbase) buf len (world s)) = - EAGAIN c \<Longrightarrow>
   flags AND SP_DONTWAIT c = 0 \<Longrightarrow>
   fst (k (snd (v_recv (vfptr sockbase) buf len (world s)))) = 0 \<Longrightarrow>
   sp_sock_recv_loop c sockbase buf len flags (k # ks) s =
     sp_sock_recv_loop c sockbase buf len flags ks
       \<lparr>world = snd (k (snd (v_recv (vfptr sockbase) buf len (world s)))),
        trace = trace s @ [Vf_recv buf len, Cond_wait (- 1)]\<rparr>"
  by (subst recv_loop_step) (simp add: Let_def)

lemma recv_loop_abort:
  "fst (v_recv (vfptr sockbase) buf len (world s)) \<noteq> 0 \<Longrightarrow>
   fst (v_recv (vfptr sockbase) buf len (world s)) = - EAGAIN c \<Longrightarrow>
   flags AND SP_DONTWAIT c = 0 \<Longrightarrow>
   fst (k (snd (v_recv (vfptr sockbase) buf len (world s)))) \<noteq> 0 \<Longrightarrow>
   sp_sock_recv_loop c sockbase buf len flags (k # ks) s =
     (Aborted,
      \<lparr>world = snd (k (snd (v_recv (vfptr sockbase) buf len (world s)))),
       trace = trace s @ [Vf_recv buf len, Cond_wait (- 1)]\<rparr>)"
  by (subst recv_loop_step) (simp add: Let_def)

text \<open>One induction over the wake-ups for all properties of the loop.\<close>

lemma recv_loop_induct [case_names return block abort wake]:
  assumes "\<And>wakes s.
            fst (v_recv (vfptr sockbase) buf len (world s)) = 0
              \<or> fst (v_recv (vfptr sockbase) buf len (world s)) \<noteq> - EAGAIN c
              \<or> flags AND SP_DONTWAIT c \<noteq> 0 \<Longrightarrow>
            P wakes s
             (Returned (fst (v_recv (vfptr sockbase) buf len (world s))),
              \<lparr>world = snd (v_recv (vfptr sockbase) buf len (world s)),
               trace = trace s @ [Vf_recv buf len, Aio_unlock]\<rparr>)"
    and "\<And>s. flags AND SP_DONTWAIT c = 0 \<Longrightarrow> P [] s
             (Blocked,
              \<lparr>world = snd (v_recv (vfptr sockbase) buf len (world s)),
               trace = trace s @ [Vf_recv buf len, Cond_wait (- 1)]\<rparr>)"
    and "\<And>k ks s. flags AND SP_DONTWAIT c = 0 \<Longrightarrow> P (k # ks) s
             (Aborted,
              \<lparr>world = snd (k (snd (v_recv (vfptr sockbase) buf len (world s)))),
               trace = trace s @ [Vf_recv buf len, Cond_wait (- 1)]\<rparr>)"
    and "\<And>k ks s r.
            P ks \<lparr>world = snd (k (snd (v_recv (vfptr sockbase) buf len (world s)))),
                  trace = trace s @ [Vf_recv buf len, Cond_wait (- 1)]\<rparr> r \<Longrightarrow>
            P (k # ks) s r"
  shows "P wakes s (sp_sock_recv_loop c sockbase buf len flags wakes s)"
proof (induction wakes arbitrary: s)
  case Nil
  show ?case
  proof (cases "fst (v_recv (vfptr sockbase) buf len (world s)) = 0
     \<or> fst (v_recv (vfptr sockbase) buf len (world s)) \<noteq> - EAGAIN c
     \<or> flags AND SP_DONTWAIT c \<noteq> 0")
    case True
    then show ?thesis by (simp only: recv_loop_return assms(1))
  next
    case False
    then show ?thesis by (simp add: recv_loop_block assms(2))
  qed
next
  case (Cons k ks)
  show ?case
  proof (cases "fst (v_recv (vfptr sockbase) buf len (world s)) = 0
     \<or> fst (v_recv (vfptr sockbase) buf len (world s)) \<noteq> - EAGAIN c
     \<or> flags AND SP_DONTWAIT c \<noteq> 0")
    case True
    then show ?thesis by (simp only: recv_loop_return assms(1))
  next
    case False
    show ?thesis
    proof (cases "fst (k (snd (v_recv (vfptr sockbase) buf len (world s)))) = 0")
      case True
      with False show ?thesis by (simp add: recv_loop_wake assms(4) Cons.IH)
    next
      case nz: False
      with False show ?thesis by (simp add: recv_loop_abort assms(3))
    qed
  qed
qed


lemma recv_loop_not_eagain:
  assumes "EAGAIN c \<noteq> 0" and "flags AND SP_DONTWAIT c = 0"
  shows "fst (sp_sock_recv_loop c sockbase buf len flags wakes s) \<noteq> Returned (- EAGAIN c)"
proof (rule recv_loop_induct
    [where P = "\<lambda>(wakes :: 'a wake list) (s :: 'a state) r. fst r \<noteq> Returned (- EAGAIN c)"])
  fix s :: "'a state"
  assume "fst (v_recv (vfptr sockbase) buf len (world s)) = 0
    \<or> fst (v_recv (vfptr sockbase) buf len (world s)) \<noteq> - EAGAIN c
    \<or> flags AND SP_DONTWAIT c \<noteq> 0"
  with assms
  show "fst (Returned (fst (v_recv (vfptr sockbase) buf len (world s))),
             \<lparr>world = snd (v_recv (vfptr sockbase) buf len (world s)),
              trace = trace s @ [Vf_recv buf len, Aio_unlock]\<rparr>) \<noteq> Returned (- EAGAIN c)"
    by auto
qed simp_all

lemma recv_loop_shape:
  "\<exists>es. trace (snd (sp_sock_recv_loop c sockbase buf len flags wakes s)) = trace s @ es
      \<and> retry_trace (Vf_recv buf len) es"
proof (rule recv_loop_induct [where P = "\<lambda>wakes s r.
        \<exists>es. trace (snd r) = trace s @ es \<and> retry_trace (Vf_recv buf len) es"])
  fix k :: "'a wake" and ks :: "'a wake list" and s :: "'a state"
    and r :: "cint outcome \<times> 'a state"
  assume "\<exists>es. trace (snd r) =
            trace \<lparr>world = snd (k (snd (v_recv (vfptr sockbase) buf len (world s)))),
                   trace = trace s @ [Vf_recv buf len, Cond_wait (- 1)]\<rparr> @ es
          \<and> retry_trace (Vf_recv buf len) es"
  then obtain es where "trace (snd r) = trace s @ (Vf_recv buf len # Cond_wait (- 1) # es)"
    and "retry_trace (Vf_recv buf len) es"
    by auto
  then show "\<exists>es. trace (snd r) = trace s @ es \<and> retry_trace (Vf_recv buf len) es"
    using retry_trace_again by blast
qed simp_all

lemma recv_loop_balance:
  "count_list (trace (snd (sp_sock_recv_loop c sockbase buf len flags wakes s))) Aio_lock
     = count_list (trace s) Aio_lock
   \<and> count_list (trace (snd (sp_sock_recv_loop c sockbase buf len flags wakes s))) Aio_unlock
     = count_list (trace s) Aio_unlock
       + (case fst (sp_sock_recv_loop c sockbase buf len flags wakes s) of
            Returned rc \<Rightarrow> 1 | _ \<Rightarrow> 0)
   \<and> (case fst (sp_sock_recv_loop c sockbase buf len flags wakes s) of
        Returned rc \<Rightarrow>
          last (trace (snd (sp_sock_recv_loop c sockbase buf len flags wakes s))) = Aio_unlock
      | _ \<Rightarrow> True)"
  by (rule recv_loop_induct [where P = "\<lambda>wakes s r.
        count_list (trace (snd r)) Aio_lock = count_list (trace s) Aio_lock
      \<and> count_list (trace (snd r)) Aio_unlock
          = count_list (trace s) Aio_unlock + (case fst r of Returned rc \<Rightarrow> 1 | _ \<Rightarrow> 0)
      \<and> (case fst r of Returned rc \<Rightarrow> last (trace (snd r)) = Aio_unlock | _ \<Rightarrow> True)"])
     simp_all

section \<open>Termination of a socket\<close>

text \<open>
  C6: \<open>sp_sock_term\<close> performs exactly three teardown steps, in this order: it calls the
  termination hook of the pattern, then it terminates the wait monitor, then it terminates
  the dispatcher binding. The log grows by exactly these three calls, whatever the socket
  and the state.
\<close>

theorem sp_sock_term_order:
  "sp_sock_term sockbase s =
     \<lparr>world = v_term (vfptr sockbase) (world s),
      trace = trace s @ [Vf_term, Cond_term, Aio_term]\<rparr>"
  by (simp add: sp_sock_term_def call_void_def aio_cond_defs emit_def)

theorem sp_sock_term_order_witness:
  "sp_sock_term script_sock (init_state [5, 6]) =
     \<lparr>world = [], trace = [Vf_term, Cond_term, Aio_term]\<rparr>"
  using sp_sock_term_order [of script_sock "init_state [5, 6]"]
  by (simp add: script_sock_def script_vfptr_def init_state_def)

section \<open>Notifications from the transport\<close>

text \<open>
  C7: for every pipe, \<open>sp_sock_in\<close> posts one event on the dispatcher, tagged
  \<open>SP_SOCK_EVENT_IN\<close> and carrying the address of the pipe's \<open>inevent\<close>, and
  \<open>sp_sock_out\<close> posts one tagged \<open>SP_SOCK_EVENT_OUT\<close> carrying the address of the pipe's
  \<open>outevent\<close>. Neither call invokes a hook of the pattern: the log gains no hook call and
  the memory of the pattern is unchanged.
\<close>

theorem notify_posts_event:
  "sp_sock_in c pipe s = s\<lparr>trace := trace s @ [Aio_post SP_SOCK_EVENT_IN (pipe + inevent_off c)]\<rparr>
   \<and> sp_sock_out c pipe s = s\<lparr>trace := trace s @ [Aio_post SP_SOCK_EVENT_OUT (pipe + outevent_off c)]\<rparr>
   \<and> filter is_hook (trace (sp_sock_in c pipe s)) = filter is_hook (trace s)
   \<and> filter is_hook (trace (sp_sock_out c pipe s)) = filter is_hook (trace s)
   \<and> world (sp_sock_in c pipe s) = world s
   \<and> world (sp_sock_out c pipe s) = world s"
  by (simp add: sp_sock_in_def sp_sock_out_def sp_aio_post_def emit_def)

theorem notify_posts_event_witness:
  "sp_sock_in sample_platform 100 (init_state [1 :: cint]) =
     \<lparr>world = [1], trace = [Aio_post 1 108]\<rparr>
   \<and> sp_sock_out sample_platform 100 (init_state [1 :: cint]) =
     \<lparr>world = [1], trace = [Aio_post 2 116]\<rparr>"
  using notify_posts_event [of sample_platform 100 "init_state [1 :: cint]"]
  by (simp add: sample_platform_def init_state_def SP_SOCK_EVENT_IN_def SP_SOCK_EVENT_OUT_def)

section \<open>The posted-event callback\<close>

lemma tags_distinct: "SP_SOCK_EVENT_OUT \<noteq> SP_SOCK_EVENT_IN"
  by (simp add: SP_SOCK_EVENT_IN_def SP_SOCK_EVENT_OUT_def)

text \<open>
  C8: the posted-event callback dispatches by tag. The event that \<open>sp_sock_in\<close> posts for a
  pipe (tag \<open>SP_SOCK_EVENT_IN\<close>, the address of the pipe's \<open>inevent\<close>) causes exactly one
  call of the hook \<open>in\<close> with that pipe, and the event that \<open>sp_sock_out\<close> posts causes
  exactly one call of the hook \<open>out\<close> with that pipe. The wait monitor is posted if and
  only if the hook returns 1 (readiness changed). A negative result of the hook aborts.
\<close>

theorem posted_event_dispatch:
  "sp_sock_event c sockbase SP_SOCK_EVENT_IN (pipe + inevent_off c) s =
     (if 0 \<le>s fst (v_in (vfptr sockbase) pipe (world s)) then Returned () else Aborted,
      \<lparr>world = snd (v_in (vfptr sockbase) pipe (world s)),
       trace = trace s @ Vf_in pipe #
         (if fst (v_in (vfptr sockbase) pipe (world s)) = 1 then [Cond_post] else [])\<rparr>)
   \<and> sp_sock_event c sockbase SP_SOCK_EVENT_OUT (pipe + outevent_off c) s =
     (if 0 \<le>s fst (v_out (vfptr sockbase) pipe (world s)) then Returned () else Aborted,
      \<lparr>world = snd (v_out (vfptr sockbase) pipe (world s)),
       trace = trace s @ Vf_out pipe #
         (if fst (v_out (vfptr sockbase) pipe (world s)) = 1 then [Cond_post] else [])\<rparr>)"
  by (simp add: sp_sock_event_def tags_distinct sp_cont_def call_eq sp_cond_post_def emit_def
      assert_defs word_sle_eq)

theorem posted_event_dispatch_witness:
  "sp_sock_event sample_platform script_sock SP_SOCK_EVENT_IN (100 + inevent_off sample_platform)
       (init_state [1]) =
     (Returned (), \<lparr>world = [], trace = [Vf_in 100, Cond_post]\<rparr>)
   \<and> sp_sock_event sample_platform script_sock SP_SOCK_EVENT_OUT (100 + outevent_off sample_platform)
       (init_state [0]) =
     (Returned (), \<lparr>world = [], trace = [Vf_out 100]\<rparr>)"
  using posted_event_dispatch [of sample_platform script_sock 100 "init_state [1]"]
    posted_event_dispatch [of sample_platform script_sock 100 "init_state [0]"]
  by (simp add: script_sock_def script_vfptr_def init_state_def pop_def word_sle_eq)

text \<open>
  C9: violations of the internal contract abort and return nothing to any caller. The raw
  I/O callback \<open>sp_sock_io\<close> aborts whenever it is invoked; a posted event whose tag is
  neither \<open>SP_SOCK_EVENT_IN\<close> nor \<open>SP_SOCK_EVENT_OUT\<close> aborts without calling a hook; a
  negative result of the hook \<open>in\<close> or \<open>out\<close> aborts right after the call of the hook (the
  monitor is not posted).
\<close>

theorem contract_violations_abort:
  "sp_sock_io sockbase event hndl s = (Aborted, s)
   \<and> (event \<noteq> SP_SOCK_EVENT_IN \<and> event \<noteq> SP_SOCK_EVENT_OUT \<longrightarrow>
        sp_sock_event c sockbase event hndl s = (Aborted, s))
   \<and> (fst (v_in (vfptr sockbase) (sp_cont hndl (inevent_off c)) (world s)) <s 0 \<longrightarrow>
        sp_sock_event c sockbase SP_SOCK_EVENT_IN hndl s =
          (Aborted,
           \<lparr>world = snd (v_in (vfptr sockbase) (sp_cont hndl (inevent_off c)) (world s)),
            trace = trace s @ [Vf_in (sp_cont hndl (inevent_off c))]\<rparr>))
   \<and> (fst (v_out (vfptr sockbase) (sp_cont hndl (outevent_off c)) (world s)) <s 0 \<longrightarrow>
        sp_sock_event c sockbase SP_SOCK_EVENT_OUT hndl s =
          (Aborted,
           \<lparr>world = snd (v_out (vfptr sockbase) (sp_cont hndl (outevent_off c)) (world s)),
            trace = trace s @ [Vf_out (sp_cont hndl (outevent_off c))]\<rparr>))"
  by (auto simp: sp_sock_io_def sp_sock_event_def tags_distinct call_eq word_sle_eq word_sless_alt
      Let_def assert_defs)

theorem contract_violations_abort_witness:
  "sp_sock_io script_sock 1 108 (init_state [0]) = (Aborted, init_state [0])
   \<and> (3 :: cint) \<noteq> SP_SOCK_EVENT_IN \<and> (3 :: cint) \<noteq> SP_SOCK_EVENT_OUT
   \<and> sp_sock_event sample_platform script_sock 3 108 (init_state [0]) = (Aborted, init_state [0])
   \<and> (- 1 :: cint) <s 0
   \<and> sp_sock_event sample_platform script_sock SP_SOCK_EVENT_IN 108 (init_state [- 1]) =
        (Aborted, \<lparr>world = [], trace = [Vf_in 100]\<rparr>)
   \<and> sp_sock_event sample_platform script_sock SP_SOCK_EVENT_OUT 116 (init_state [- 1]) =
        (Aborted, \<lparr>world = [], trace = [Vf_out 100]\<rparr>)"
  using contract_violations_abort [of script_sock 1 108 "init_state [0]" sample_platform]
    contract_violations_abort [of script_sock 3 108 "init_state [0]" sample_platform]
    contract_violations_abort [of script_sock 3 108 "init_state [- 1]" sample_platform]
    contract_violations_abort [of script_sock 3 116 "init_state [- 1]" sample_platform]
  by (simp add: script_sock_def script_vfptr_def sample_platform_def init_state_def pop_def
      sp_cont_def SP_SOCK_EVENT_IN_def SP_SOCK_EVENT_OUT_def word_sless_alt)

section \<open>Socket options\<close>

lemma setopt_eq:
  "sp_sock_setopt c sockbase level option optval optvallen s =
     (if level = SP_SOL_SOCKET c
      then (Returned (fst (v_setopt (vfptr sockbase) option optval optvallen (world s))),
            \<lparr>world = snd (v_setopt (vfptr sockbase) option optval optvallen (world s)),
             trace = trace s @ [Aio_lock, Vf_setopt option optval optvallen, Aio_unlock]\<rparr>)
      else (Returned (- ENOPROTOOPT c), s\<lparr>trace := trace s @ [Aio_lock, Aio_unlock]\<rparr>))"
  by (simp add: sp_sock_setopt_def sp_aio_lock_def sp_aio_unlock_def call_eq emit_def Let_def)

lemma getopt_eq:
  "sp_sock_getopt c sockbase level option optval optvallen s =
     (if level = SP_SOL_SOCKET c
      then (Returned (fst (v_getopt (vfptr sockbase) option optval optvallen (world s))),
            \<lparr>world = snd (v_getopt (vfptr sockbase) option optval optvallen (world s)),
             trace = trace s @ [Aio_lock, Vf_getopt option optval optvallen, Aio_unlock]\<rparr>)
      else (Returned (- ENOPROTOOPT c), s\<lparr>trace := trace s @ [Aio_lock, Aio_unlock]\<rparr>))"
  by (simp add: sp_sock_getopt_def sp_aio_lock_def sp_aio_unlock_def call_eq emit_def Let_def)

text \<open>
  C5: in \<open>sp_sock_setopt\<close> and \<open>sp_sock_getopt\<close>, whenever the hook of the pattern is
  consulted (its call is in the log of the operation, which happens only at the level
  \<open>SP_SOL_SOCKET\<close>) and returns anything other than \<open>-ENOPROTOOPT\<close>, that result is returned
  to the caller unchanged; when it returns \<open>-ENOPROTOOPT\<close> the call falls through to the end
  of the function and fails with \<open>-ENOPROTOOPT\<close>. In both cases the memory is as the hook
  left it.
\<close>

theorem pattern_option_result_returned:
  "(Vf_setopt option optval optvallen
      \<in> set (trace (snd (sp_sock_setopt c sockbase level option optval optvallen (init_state w)))) \<longrightarrow>
      level = SP_SOL_SOCKET c
    \<and> (fst (v_setopt (vfptr sockbase) option optval optvallen w) \<noteq> - ENOPROTOOPT c \<longrightarrow>
         fst (sp_sock_setopt c sockbase level option optval optvallen (init_state w)) =
           Returned (fst (v_setopt (vfptr sockbase) option optval optvallen w)))
    \<and> (fst (v_setopt (vfptr sockbase) option optval optvallen w) = - ENOPROTOOPT c \<longrightarrow>
         fst (sp_sock_setopt c sockbase level option optval optvallen (init_state w)) =
           Returned (- ENOPROTOOPT c))
    \<and> world (snd (sp_sock_setopt c sockbase level option optval optvallen (init_state w))) =
         snd (v_setopt (vfptr sockbase) option optval optvallen w))
   \<and> (Vf_getopt option gval gvallen
      \<in> set (trace (snd (sp_sock_getopt c sockbase level option gval gvallen (init_state w)))) \<longrightarrow>
      level = SP_SOL_SOCKET c
    \<and> (fst (v_getopt (vfptr sockbase) option gval gvallen w) \<noteq> - ENOPROTOOPT c \<longrightarrow>
         fst (sp_sock_getopt c sockbase level option gval gvallen (init_state w)) =
           Returned (fst (v_getopt (vfptr sockbase) option gval gvallen w)))
    \<and> (fst (v_getopt (vfptr sockbase) option gval gvallen w) = - ENOPROTOOPT c \<longrightarrow>
         fst (sp_sock_getopt c sockbase level option gval gvallen (init_state w)) =
           Returned (- ENOPROTOOPT c))
    \<and> world (snd (sp_sock_getopt c sockbase level option gval gvallen (init_state w))) =
         snd (v_getopt (vfptr sockbase) option gval gvallen w))"
  by (simp add: setopt_eq getopt_eq init_state_def)

theorem pattern_option_result_returned_witness:
  "Vf_setopt 7 100 4
     \<in> set (trace (snd (sp_sock_setopt sample_platform script_sock 1 7 100 4 (init_state [- 22]))))
   \<and> fst (v_setopt (vfptr script_sock) 7 100 4 [- 22]) \<noteq> - ENOPROTOOPT sample_platform
   \<and> fst (sp_sock_setopt sample_platform script_sock 1 7 100 4 (init_state [- 22])) = Returned (- 22)
   \<and> Vf_setopt 7 100 4
     \<in> set (trace (snd (sp_sock_setopt sample_platform script_sock 1 7 100 4 (init_state [- 92]))))
   \<and> fst (v_setopt (vfptr script_sock) 7 100 4 [- 92]) = - ENOPROTOOPT sample_platform
   \<and> fst (sp_sock_setopt sample_platform script_sock 1 7 100 4 (init_state [- 92])) = Returned (- 92)
   \<and> Vf_getopt 7 100 200
     \<in> set (trace (snd (sp_sock_getopt sample_platform script_sock 1 7 100 200 (init_state [0]))))
   \<and> fst (v_getopt (vfptr script_sock) 7 100 200 [0]) \<noteq> - ENOPROTOOPT sample_platform
   \<and> fst (sp_sock_getopt sample_platform script_sock 1 7 100 200 (init_state [0])) = Returned 0
   \<and> Vf_getopt 7 100 200
     \<in> set (trace (snd (sp_sock_getopt sample_platform script_sock 1 7 100 200 (init_state [- 92]))))
   \<and> fst (v_getopt (vfptr script_sock) 7 100 200 [- 92]) = - ENOPROTOOPT sample_platform
   \<and> fst (sp_sock_getopt sample_platform script_sock 1 7 100 200 (init_state [- 92])) = Returned (- 92)"
proof -
  have consulted:
    "Vf_setopt 7 100 4
       \<in> set (trace (snd (sp_sock_setopt sample_platform script_sock 1 7 100 4 (init_state w))))"
    "Vf_getopt 7 100 200
       \<in> set (trace (snd (sp_sock_getopt sample_platform script_sock 1 7 100 200 (init_state w))))"
    for w
    by (simp_all add: setopt_eq getopt_eq init_state_def sample_platform_def)
  show ?thesis
    using consulted
      pattern_option_result_returned [of 7 100 4 sample_platform script_sock 1 "[- 22]" 100 200]
      pattern_option_result_returned [of 7 100 4 sample_platform script_sock 1 "[- 92]" 100 200]
      pattern_option_result_returned [of 7 100 4 sample_platform script_sock 1 "[0]" 100 200]
    by (simp add: script_sock_def script_vfptr_def sample_platform_def pop_def)
qed

text \<open>
  C2, as amended: for every (level, option) pair whose level is the generic socket level
  \<open>SP_SOL_SOCKET\<close>, \<open>sp_sock_setopt\<close> and \<open>sp_sock_getopt\<close> forward the option and the value
  to the hook of the pattern, under the lock, and fail with \<open>-ENOPROTOOPT\<close> when the pattern
  does not recognise the option. For every other level the hook is not consulted and the
  call fails with \<open>-ENOPROTOOPT\<close>, leaving the memory unchanged. No call aborts.
\<close>

theorem option_level_dispatch:
  "(level = SP_SOL_SOCKET c \<longrightarrow>
      trace (snd (sp_sock_setopt c sockbase level option optval optvallen s)) =
        trace s @ [Aio_lock, Vf_setopt option optval optvallen, Aio_unlock]
    \<and> trace (snd (sp_sock_getopt c sockbase level option gval gvallen s)) =
        trace s @ [Aio_lock, Vf_getopt option gval gvallen, Aio_unlock]
    \<and> (fst (v_setopt (vfptr sockbase) option optval optvallen (world s)) = - ENOPROTOOPT c \<longrightarrow>
         fst (sp_sock_setopt c sockbase level option optval optvallen s) = Returned (- ENOPROTOOPT c))
    \<and> (fst (v_getopt (vfptr sockbase) option gval gvallen (world s)) = - ENOPROTOOPT c \<longrightarrow>
         fst (sp_sock_getopt c sockbase level option gval gvallen s) = Returned (- ENOPROTOOPT c)))
   \<and> (level \<noteq> SP_SOL_SOCKET c \<longrightarrow>
      sp_sock_setopt c sockbase level option optval optvallen s =
        (Returned (- ENOPROTOOPT c), s\<lparr>trace := trace s @ [Aio_lock, Aio_unlock]\<rparr>)
    \<and> sp_sock_getopt c sockbase level option gval gvallen s =
        (Returned (- ENOPROTOOPT c), s\<lparr>trace := trace s @ [Aio_lock, Aio_unlock]\<rparr>))
   \<and> fst (sp_sock_setopt c sockbase level option optval optvallen s) \<noteq> Aborted
   \<and> fst (sp_sock_getopt c sockbase level option gval gvallen s) \<noteq> Aborted"
  by (simp add: setopt_eq getopt_eq)

theorem option_level_dispatch_witness:
  "(1 :: cint) = SP_SOL_SOCKET sample_platform
   \<and> trace (snd (sp_sock_setopt sample_platform script_sock 1 7 100 4 (init_state [- 92]))) =
       [Aio_lock, Vf_setopt 7 100 4, Aio_unlock]
   \<and> trace (snd (sp_sock_getopt sample_platform script_sock 1 7 100 200 (init_state [- 92]))) =
       [Aio_lock, Vf_getopt 7 100 200, Aio_unlock]
   \<and> fst (v_setopt (vfptr script_sock) 7 100 4 [- 92]) = - ENOPROTOOPT sample_platform
   \<and> fst (sp_sock_setopt sample_platform script_sock 1 7 100 4 (init_state [- 92])) = Returned (- 92)
   \<and> fst (v_getopt (vfptr script_sock) 7 100 200 [- 92]) = - ENOPROTOOPT sample_platform
   \<and> fst (sp_sock_getopt sample_platform script_sock 1 7 100 200 (init_state [- 92])) = Returned (- 92)
   \<and> (2 :: cint) \<noteq> SP_SOL_SOCKET sample_platform
   \<and> sp_sock_setopt sample_platform script_sock 2 7 100 4 (init_state [0]) =
       (Returned (- 92), \<lparr>world = [0], trace = [Aio_lock, Aio_unlock]\<rparr>)
   \<and> sp_sock_getopt sample_platform script_sock 2 7 100 200 (init_state [0]) =
       (Returned (- 92), \<lparr>world = [0], trace = [Aio_lock, Aio_unlock]\<rparr>)"
  using option_level_dispatch
      [of 1 sample_platform script_sock 7 100 4 "init_state [- 92]" 100 200]
    option_level_dispatch
      [of 2 sample_platform script_sock 7 100 4 "init_state [0]" 100 200]
  by (simp add: script_sock_def script_vfptr_def sample_platform_def init_state_def pop_def)

text \<open>
  C2 as stated (requests at a level other than the generic socket level are forwarded to
  the pattern) fails: at level 2, where \<open>SP_SOL_SOCKET\<close> is 1, a pattern that would accept
  the option is never called, and both calls fail with \<open>-ENOPROTOOPT\<close>.
\<close>

theorem other_level_not_forwarded:
  "(2 :: cint) \<noteq> SP_SOL_SOCKET sample_platform
   \<and> v_setopt (vfptr script_sock) 7 100 4 [0] = (0, [])
   \<and> sp_sock_setopt sample_platform script_sock 2 7 100 4 (init_state [0]) =
       (Returned (- 92), \<lparr>world = [0], trace = [Aio_lock, Aio_unlock]\<rparr>)
   \<and> v_getopt (vfptr script_sock) 7 100 200 [0] = (0, [])
   \<and> sp_sock_getopt sample_platform script_sock 2 7 100 200 (init_state [0]) =
       (Returned (- 92), \<lparr>world = [0], trace = [Aio_lock, Aio_unlock]\<rparr>)"
  by (simp add: setopt_eq getopt_eq script_sock_def script_vfptr_def sample_platform_def
      init_state_def pop_def)

section \<open>Hooks and the lock\<close>





section \<open>Lock balance\<close>

lemma send_balance:
  "case fst (sp_sock_send c sockbase buf len flags wakes (init_state w)) of
     Returned rc \<Rightarrow>
       balanced_log (trace (snd (sp_sock_send c sockbase buf len flags wakes (init_state w))))
   | _ \<Rightarrow>
       count_list (trace (snd (sp_sock_send c sockbase buf len flags wakes (init_state w)))) Aio_lock = 1
     \<and> count_list (trace (snd (sp_sock_send c sockbase buf len flags wakes (init_state w)))) Aio_unlock = 0"
proof -
  define s where "s = sp_aio_lock (init_state w)"
  define r where "r = sp_sock_send_loop c sockbase buf len flags wakes s"
  have s: "trace s = [Aio_lock]" by (simp add: s_def sp_aio_lock_def init_state_def)
  obtain es where es: "trace (snd r) = Aio_lock # es" "retry_trace (Vf_send buf len) es"
    using send_loop_shape [of c sockbase buf len flags wakes s] by (auto simp: r_def s)
  from es(2) have "es \<noteq> []" by auto
  with es(1) have "take 1 (trace (snd r)) = [Aio_lock]" "last (trace (snd r)) = last es"
    by simp_all
  with send_loop_balance [of c sockbase buf len flags wakes s] s
  have "case fst r of
     Returned rc \<Rightarrow> balanced_log (trace (snd r))
   | _ \<Rightarrow> count_list (trace (snd r)) Aio_lock = 1 \<and> count_list (trace (snd r)) Aio_unlock = 0"
    by (simp add: r_def [symmetric] balanced_log_def split: outcome.splits)
  then show ?thesis unfolding sp_sock_send_def r_def s_def .
qed

lemma recv_balance:
  "case fst (sp_sock_recv c sockbase buf len flags wakes (init_state w)) of
     Returned rc \<Rightarrow>
       balanced_log (trace (snd (sp_sock_recv c sockbase buf len flags wakes (init_state w))))
   | _ \<Rightarrow>
       count_list (trace (snd (sp_sock_recv c sockbase buf len flags wakes (init_state w)))) Aio_lock = 1
     \<and> count_list (trace (snd (sp_sock_recv c sockbase buf len flags wakes (init_state w)))) Aio_unlock = 0"
proof -
  define s where "s = sp_aio_lock (init_state w)"
  define r where "r = sp_sock_recv_loop c sockbase buf len flags wakes s"
  have s: "trace s = [Aio_lock]" by (simp add: s_def sp_aio_lock_def init_state_def)
  obtain es where es: "trace (snd r) = Aio_lock # es" "retry_trace (Vf_recv buf len) es"
    using recv_loop_shape [of c sockbase buf len flags wakes s] by (auto simp: r_def s)
  from es(2) have "es \<noteq> []" by auto
  with es(1) have "take 1 (trace (snd r)) = [Aio_lock]" "last (trace (snd r)) = last es"
    by simp_all
  with recv_loop_balance [of c sockbase buf len flags wakes s] s
  have "case fst r of
     Returned rc \<Rightarrow> balanced_log (trace (snd r))
   | _ \<Rightarrow> count_list (trace (snd r)) Aio_lock = 1 \<and> count_list (trace (snd r)) Aio_unlock = 0"
    by (simp add: r_def [symmetric] balanced_log_def split: outcome.splits)
  then show ?thesis unfolding sp_sock_recv_def r_def s_def .
qed

text \<open>
  C10: every path through \<open>sp_sock_setopt\<close>, \<open>sp_sock_getopt\<close>, \<open>sp_sock_send\<close> and
  \<open>sp_sock_recv\<close> that returns to the caller has locked the dispatcher exactly once, as its
  first action, and unlocked it exactly once, as its last action (\<open>balanced_log\<close>); the waits
  in between are single calls of the monitor. The option calls always return. A send or
  receive that does not return (it stays parked, or a failed wait aborts) has locked once
  and not unlocked.
\<close>

theorem lock_balance:
  "(case fst (sp_sock_setopt c sockbase level option optval optvallen (init_state w)) of
      Returned rc \<Rightarrow>
        balanced_log (trace (snd (sp_sock_setopt c sockbase level option optval optvallen (init_state w))))
    | _ \<Rightarrow> False)
   \<and> (case fst (sp_sock_getopt c sockbase level option gval gvallen (init_state w)) of
      Returned rc \<Rightarrow>
        balanced_log (trace (snd (sp_sock_getopt c sockbase level option gval gvallen (init_state w))))
    | _ \<Rightarrow> False)
   \<and> (case fst (sp_sock_send c sockbase buf len flags wakes (init_state w)) of
      Returned rc \<Rightarrow>
        balanced_log (trace (snd (sp_sock_send c sockbase buf len flags wakes (init_state w))))
    | _ \<Rightarrow>
        count_list (trace (snd (sp_sock_send c sockbase buf len flags wakes (init_state w)))) Aio_lock = 1
      \<and> count_list (trace (snd (sp_sock_send c sockbase buf len flags wakes (init_state w)))) Aio_unlock = 0)
   \<and> (case fst (sp_sock_recv c sockbase rbuf rlen flags wakes (init_state w)) of
      Returned rc \<Rightarrow>
        balanced_log (trace (snd (sp_sock_recv c sockbase rbuf rlen flags wakes (init_state w))))
    | _ \<Rightarrow>
        count_list (trace (snd (sp_sock_recv c sockbase rbuf rlen flags wakes (init_state w)))) Aio_lock = 1
      \<and> count_list (trace (snd (sp_sock_recv c sockbase rbuf rlen flags wakes (init_state w)))) Aio_unlock = 0)"
proof -
  have "case fst (sp_sock_setopt c sockbase level option optval optvallen (init_state w)) of
      Returned rc \<Rightarrow>
        balanced_log (trace (snd (sp_sock_setopt c sockbase level option optval optvallen (init_state w))))
    | _ \<Rightarrow> False"
    by (simp add: setopt_eq balanced_log_def init_state_def)
  moreover have "case fst (sp_sock_getopt c sockbase level option gval gvallen (init_state w)) of
      Returned rc \<Rightarrow>
        balanced_log (trace (snd (sp_sock_getopt c sockbase level option gval gvallen (init_state w))))
    | _ \<Rightarrow> False"
    by (simp add: getopt_eq balanced_log_def init_state_def)
  ultimately show ?thesis
    using send_balance [of c sockbase buf len flags wakes w]
      recv_balance [of c sockbase rbuf rlen flags wakes w]
    by simp
qed

theorem lock_balance_witness:
  "sp_sock_setopt sample_platform script_sock 1 7 100 4 (init_state [0]) =
     (Returned 0, \<lparr>world = [], trace = [Aio_lock, Vf_setopt 7 100 4, Aio_unlock]\<rparr>)
   \<and> balanced_log [Aio_lock, Vf_setopt 7 100 4, Aio_unlock]
   \<and> sp_sock_getopt sample_platform script_sock 2 7 100 200 (init_state [0]) =
     (Returned (- 92), \<lparr>world = [0], trace = [Aio_lock, Aio_unlock]\<rparr>)
   \<and> balanced_log [Aio_lock, Aio_unlock]
   \<and> sp_sock_send sample_platform script_sock 100 4 0 [Pair 0] (init_state [- 11, 0]) =
     (Returned 0,
      \<lparr>world = [], trace = [Aio_lock, Vf_send 100 4, Cond_wait (- 1), Vf_send 100 4, Aio_unlock]\<rparr>)
   \<and> balanced_log [Aio_lock, Vf_send 100 4, Cond_wait (- 1), Vf_send 100 4, Aio_unlock]
   \<and> sp_sock_recv sample_platform script_sock 200 300 1 [] (init_state [- 11, 0]) =
     (Returned (- 11), \<lparr>world = [0], trace = [Aio_lock, Vf_recv 200 300, Aio_unlock]\<rparr>)
   \<and> balanced_log [Aio_lock, Vf_recv 200 300, Aio_unlock]"
proof -
  have evals:
    "sp_sock_setopt sample_platform script_sock 1 7 100 4 (init_state [0]) =
       (Returned 0, \<lparr>world = [], trace = [Aio_lock, Vf_setopt 7 100 4, Aio_unlock]\<rparr>)"
    "sp_sock_getopt sample_platform script_sock 2 7 100 200 (init_state [0]) =
       (Returned (- 92), \<lparr>world = [0], trace = [Aio_lock, Aio_unlock]\<rparr>)"
    "sp_sock_send sample_platform script_sock 100 4 0 [Pair 0] (init_state [- 11, 0]) =
       (Returned 0,
        \<lparr>world = [], trace = [Aio_lock, Vf_send 100 4, Cond_wait (- 1), Vf_send 100 4, Aio_unlock]\<rparr>)"
    "sp_sock_recv sample_platform script_sock 200 300 1 [] (init_state [- 11, 0]) =
       (Returned (- 11), \<lparr>world = [0], trace = [Aio_lock, Vf_recv 200 300, Aio_unlock]\<rparr>)"
    by (simp_all add: setopt_eq getopt_eq sp_sock_send_def sp_sock_recv_def sp_aio_lock_def
        send_loop_step recv_loop_step Let_def emit_def init_state_def
        script_sock_def script_vfptr_def sample_platform_def pop_def)
  show ?thesis
    using evals
      lock_balance [of sample_platform script_sock 1 7 100 4 "[0]" 100 200 100 4 0 "[]" 200 300]
      lock_balance [of sample_platform script_sock 2 7 100 4 "[0]" 100 200 100 4 0 "[]" 200 300]
      lock_balance [of sample_platform script_sock 1 7 100 4 "[- 11, 0]" 100 200 100 4 0 "[Pair 0]" 200 300]
      lock_balance [of sample_platform script_sock 1 7 100 4 "[- 11, 0]" 100 200 100 4 1 "[]" 200 300]
    by simp
qed

section \<open>The blocking-retry protocol\<close>





section \<open>Receive mirrors send\<close>




end
